theory Spec2Isabelle
  imports
    Main
    "HOL-Library.Char_ord"
    "HOL-Library.List_Lexorder"
    "HOL-Library.Product_Lexorder"
    "HOL-Library.Multiset"
    "HOL-Library.Sublist"
begin

section \<open>The library application: store, requests and handlers\<close>

text \<open>
  The program is one Flask module, \<^verbatim>\<open>app.py\<close>, with four request handlers
  (\<^verbatim>\<open>home\<close>, \<^verbatim>\<open>add_author\<close>, \<^verbatim>\<open>add_book\<close>, \<^verbatim>\<open>delete_book\<close>) over a
  relational store of two tables. Each handler is embedded as a function that takes the
  store and the request and returns the store after the request together with what the
  handler produced: the context it renders, the redirect it issues, or the exception it
  lets escape. A handler that raises has committed nothing, so it returns the store it was
  given.

  Modelling conventions.
  \<^item> Python text is \<^typ>\<open>string\<close>; whitespace and letter case are modelled for the ASCII
    range, every other character is carried through unchanged.
  \<^item> Python integers are \<^typ>\<open>int\<close>; the 64-bit limit of the storage engine's integer
    columns is not modelled.
  \<^item> A table is the list of its rows in insertion order.
\<close>

subsection \<open>Storage schema\<close>

datatype date = Date (year: int) (month: int) (day: int)

text \<open>
  Modelled from the spec: the module \<^verbatim>\<open>data_models\<close> that declares \<^verbatim>\<open>Author\<close> and
  \<^verbatim>\<open>Book\<close> is not among the sources. The columns are the ones section 3 of the
  specification lists and the handlers read and write.
\<close>

record author =
  a_id :: int
  name :: string
  birth_date :: "date option"
  date_of_death :: "date option"

record book =
  b_id :: int
  isbn :: string
  title :: string
  publication_year :: "int option"
  author_id :: int

record store =
  authors :: "author list"
  books :: "book list"

text \<open>
  Modelled from the spec: identifiers are system-assigned and unique (the column
  declarations are in \<^verbatim>\<open>data_models\<close>). A new row gets one more than the largest
  identifier of its table, which is what the storage engine named in the configuration
  does for an integer primary key.
\<close>

definition next_id :: "int list \<Rightarrow> int" where
  "next_id ids = fold max ids 0 + 1"

text \<open>\<^verbatim>\<open>Book.query.get(book_id)\<close> and \<^verbatim>\<open>Author.query.get(author_id)\<close>: the row with
  that primary key, if any.\<close>

definition get_book :: "store \<Rightarrow> int \<Rightarrow> book option" where
  "get_book s i = find (\<lambda>b. b_id b = i) (books s)"

definition get_author :: "store \<Rightarrow> int \<Rightarrow> author option" where
  "get_author s i = find (\<lambda>a. a_id a = i) (authors s)"

subsection \<open>What a handler produces\<close>

text \<open>
  The exceptions that leave a handler: \<^verbatim>\<open>get_or_404\<close> aborts with HTTP 404, and
  \<^verbatim>\<open>date.fromisoformat\<close> and \<^verbatim>\<open>int\<close> raise \<^verbatim>\<open>ValueError\<close>, which no handler catches.
\<close>

datatype error = NotFound | ValueError

subsection \<open>Text helpers\<close>

text \<open>\<^verbatim>\<open>str.strip()\<close>: leading and trailing whitespace removed.\<close>

definition is_space :: "char \<Rightarrow> bool" where
  "is_space c = (c \<in> set [CHR 0x09, CHR 0x0A, CHR 0x0B, CHR 0x0C, CHR 0x0D,
                            CHR 0x1C, CHR 0x1D, CHR 0x1E, CHR 0x1F, CHR 0x20])"

definition strip :: "string \<Rightarrow> string" where
  "strip s = rev (dropWhile is_space (rev (dropWhile is_space s)))"

text \<open>The text between single quotes, as the f-strings of the handlers write it.\<close>

definition quoted :: "string \<Rightarrow> string" where
  "quoted s = [CHR 0x27] @ s @ [CHR 0x27]"

text \<open>\<^verbatim>\<open>request.args.get(key, default)\<close> and \<^verbatim>\<open>request.form.get(key, default)\<close>: a
  parameter the request does not carry is \<^term>\<open>None\<close>.\<close>

definition get_default :: "string option \<Rightarrow> string \<Rightarrow> string" where
  "get_default v d = (case v of None \<Rightarrow> d | Some x \<Rightarrow> x)"

subsection \<open>Parsing form fields\<close>

definition is_digit :: "char \<Rightarrow> bool" where
  "is_digit c = (c \<in> set ''0123456789'')"

definition digit_val :: "char \<Rightarrow> int" where
  "digit_val c = of_char c - 48"

definition digits_val :: "string \<Rightarrow> int" where
  "digits_val s = foldl (\<lambda>acc c. 10 * acc + digit_val c) 0 s"

text \<open>
  \<^verbatim>\<open>int(text)\<close> on text that is already stripped: an optional sign, then decimal
  digits, where one underscore may stand between two digits. \<^term>\<open>None\<close> is the
  \<^verbatim>\<open>ValueError\<close>.
\<close>

fun int_digits :: "int \<Rightarrow> string \<Rightarrow> int option" where
  "int_digits acc [] = Some acc"
| "int_digits acc (c # cs) =
     (if is_digit c then int_digits (10 * acc + digit_val c) cs
      else if c = CHR ''_'' then
        (case cs of
           [] \<Rightarrow> None
         | d # ds \<Rightarrow> if is_digit d then int_digits acc cs else None)
      else None)"

definition int_unsigned :: "string \<Rightarrow> int option" where
  "int_unsigned s =
     (case s of [] \<Rightarrow> None | c # cs \<Rightarrow> if is_digit c then int_digits 0 s else None)"

definition py_int :: "string \<Rightarrow> int option" where
  "py_int s =
     (case strip s of
        [] \<Rightarrow> None
      | c # cs \<Rightarrow>
          if c = CHR ''+'' then int_unsigned cs
          else if c = CHR ''-'' then map_option uminus (int_unsigned cs)
          else int_unsigned (c # cs))"

text \<open>
  \<^verbatim>\<open>date.fromisoformat(text)\<close> for the form \<^verbatim>\<open>YYYY-MM-DD\<close>, the one the
  specification names: ten characters, a year from 1 to 9999, a month from 1 to 12 and a
  day the month has. \<^term>\<open>None\<close> is the \<^verbatim>\<open>ValueError\<close>. (Later versions of the
  standard library read further ISO 8601 forms; the theorems below depend only on whether
  the parse succeeds.)
\<close>

definition leap :: "int \<Rightarrow> bool" where
  "leap y = (y mod 4 = 0 \<and> (y mod 100 \<noteq> 0 \<or> y mod 400 = 0))"

definition days_in_month :: "int \<Rightarrow> int \<Rightarrow> int" where
  "days_in_month y m =
     (if m = 2 then (if leap y then 29 else 28)
      else if m = 4 \<or> m = 6 \<or> m = 9 \<or> m = 11 then 30 else 31)"

definition fromisoformat :: "string \<Rightarrow> date option" where
  "fromisoformat s =
     (let ys = take 4 s; ms = take 2 (drop 5 s); ds = drop 8 s;
          y = digits_val ys; m = digits_val ms; d = digits_val ds
      in if length s = 10 \<and> s ! 4 = CHR ''-'' \<and> s ! 7 = CHR ''-''
            \<and> list_all is_digit ys \<and> list_all is_digit ms \<and> list_all is_digit ds
            \<and> 1 \<le> y \<and> 1 \<le> m \<and> m \<le> 12 \<and> 1 \<le> d \<and> d \<le> days_in_month y m
         then Some (Date y m d) else None)"

text \<open>\<^verbatim>\<open>parse(raw) if raw else None\<close>: an empty field is null, a field that does not
  parse raises.\<close>

definition parse_optional :: "(string \<Rightarrow> 'a option) \<Rightarrow> string \<Rightarrow> error + 'a option" where
  "parse_optional parse raw =
     (if raw \<noteq> [] then (case parse raw of None \<Rightarrow> Inl ValueError | Some v \<Rightarrow> Inr (Some v))
      else Inr None)"

subsection \<open>Pattern matching of the listing\<close>

text \<open>
  \<^verbatim>\<open>column.ilike(pattern)\<close> is \<^verbatim>\<open>lower(column) LIKE lower(pattern)\<close>. In a pattern
  \<^verbatim>\<open>%\<close> stands for any run of characters and \<^verbatim>\<open>_\<close> for any one character; the
  handler passes no escape character. Lower case is taken on ASCII letters.
\<close>

definition lower :: "char \<Rightarrow> char" where
  "lower c =
     (case map_of (zip ''ABCDEFGHIJKLMNOPQRSTUVWXYZ'' ''abcdefghijklmnopqrstuvwxyz'') c of
        None \<Rightarrow> c
      | Some l \<Rightarrow> l)"

fun like :: "string \<Rightarrow> string \<Rightarrow> bool" where
  "like [] [] = True"
| "like [] (c # cs) = False"
| "like (p # ps) [] = (p = CHR ''%'' \<and> like ps [])"
| "like (p # ps) (c # cs) =
     (if p = CHR ''%'' then like ps (c # cs) \<or> like (p # ps) cs
      else if p = CHR ''_'' then like ps cs
      else p = c \<and> like ps cs)"

definition ilike :: "string \<Rightarrow> string \<Rightarrow> bool" where
  "ilike column pattern = like (map lower pattern) (map lower column)"

subsection \<open>Listing books\<close>

record home_args =
  arg_sort :: "string option"
  arg_q :: "string option"
  arg_msg :: "string option"

record home_page =
  hp_books :: "book list"
  hp_sort :: string
  hp_q :: string
  hp_message :: "string option"

text \<open>\<^verbatim>\<open>Book.query.join(Author)\<close>: every book row with every author row its
  \<^verbatim>\<open>author_id\<close> refers to. A book whose author is not in the store has no row here.\<close>

definition join_author :: "store \<Rightarrow> (book \<times> author) list" where
  "join_author s =
     concat (map (\<lambda>b. map (\<lambda>a. (b, a)) (filter (\<lambda>a. a_id a = author_id b) (authors s)))
                 (books s))"

definition matches :: "string \<Rightarrow> book \<times> author \<Rightarrow> bool" where
  "matches pattern r =
     (ilike (title (fst r)) pattern \<or> ilike (isbn (fst r)) pattern
      \<or> ilike (name (snd r)) pattern)"

text \<open>The query of \<^verbatim>\<open>home\<close>, with its joined author rows: filter when \<^verbatim>\<open>q\<close> is not
  empty, then order. Rows with equal keys keep the order of the table.\<close>

definition home_query :: "store \<Rightarrow> string \<Rightarrow> string \<Rightarrow> (book \<times> author) list" where
  "home_query s q sort_arg =
     (let query = join_author s;
          query = (if q \<noteq> [] then filter (matches (''%'' @ q @ ''%'')) query else query)
      in if sort_arg = ''author''
         then sort_key (\<lambda>r. (name (snd r), title (fst r))) query
         else sort_key (\<lambda>r. title (fst r)) query)"

definition home :: "store \<Rightarrow> home_args \<Rightarrow> home_page" where
  "home s args =
     (let sort_arg = get_default (arg_sort args) ''title'';
          q = strip (get_default (arg_q args) '''');
          msg = strip (get_default (arg_msg args) '''');
          found = map fst (home_query s q sort_arg);
          message = (if q \<noteq> [] \<and> length found = 0
                     then Some (''No books match: '' @ quoted q) else None);
          message = (if msg \<noteq> [] then Some msg else message)
      in \<lparr>hp_books = found, hp_sort = sort_arg, hp_q = q, hp_message = message\<rparr>)"

subsection \<open>Adding an author\<close>

datatype http_method = GET | POST

record author_form =
  f_name :: "string option"
  f_birth_date :: "string option"
  f_date_of_death :: "string option"

text \<open>
  \<^verbatim>\<open>add_author\<close>: on POST, strip the three fields, parse the two dates (a date that
  does not parse raises here, before the name is looked at), then either report that the
  name is required or insert the author and commit. The result is the message the page is
  rendered with.
\<close>

definition add_author ::
  "store \<Rightarrow> http_method \<Rightarrow> author_form \<Rightarrow> store \<times> (error + string option)" where
  "add_author s m form =
     (if m = POST then
        let name_in = strip (get_default (f_name form) '''');
            birth_date_raw = strip (get_default (f_birth_date form) '''');
            date_of_death_raw = strip (get_default (f_date_of_death form) '''')
        in (case parse_optional fromisoformat birth_date_raw of
              Inl e \<Rightarrow> (s, Inl e)
            | Inr birth \<Rightarrow>
               (case parse_optional fromisoformat date_of_death_raw of
                  Inl e \<Rightarrow> (s, Inl e)
                | Inr death \<Rightarrow>
                    if name_in = [] then (s, Inr (Some ''Name is required.''))
                    else
                      (s\<lparr>authors := authors s @
                           [\<lparr>a_id = next_id (map a_id (authors s)), name = name_in,
                             birth_date = birth, date_of_death = death\<rparr>]\<rparr>,
                       Inr (Some (''Author '' @ quoted name_in @ '' added successfully.'')))))
      else (s, Inr None))"

subsection \<open>Adding a book\<close>

record book_form =
  f_isbn :: "string option"
  f_title :: "string option"
  f_publication_year :: "string option"
  f_author_id :: "string option"

text \<open>
  Modelled from the spec: the constraints of the schema are declared in \<^verbatim>\<open>data_models\<close>,
  which is not among the sources. Section 4.1 of the specification: ISBN uniqueness is a
  storage-level constraint, and the author reference of a book is a foreign key. Whether
  the storage engine checks foreign keys is a setting the sources do not show, so it is
  the parameter \<open>fk\<close>. A commit that breaks a constraint raises \<^verbatim>\<open>IntegrityError\<close>.
\<close>

definition integrity_error :: "bool \<Rightarrow> store \<Rightarrow> book \<Rightarrow> bool" where
  "integrity_error fk s b =
     (isbn b \<in> set (map isbn (books s)) \<or> (fk \<and> get_author s (author_id b) = None))"

text \<open>
  \<^verbatim>\<open>add_book\<close>: the author list for the form is read first. On POST, strip the four
  fields; if ISBN, title or author are empty, report it; otherwise parse the year and the
  author id (\<^verbatim>\<open>int\<close> raises on text that is no integer), build the book and commit. On
  \<^verbatim>\<open>IntegrityError\<close> the session is rolled back and the message names the ISBN.
\<close>

definition add_book ::
  "bool \<Rightarrow> store \<Rightarrow> http_method \<Rightarrow> book_form
     \<Rightarrow> store \<times> (error + author list \<times> string option)" where
  "add_book fk s m form =
     (let author_list = sort_key name (authors s) in
      if m = POST then
        let isbn_in = strip (get_default (f_isbn form) '''');
            title_in = strip (get_default (f_title form) '''');
            publication_year_raw = strip (get_default (f_publication_year form) '''');
            author_id_raw = strip (get_default (f_author_id form) '''')
        in if isbn_in = [] \<or> title_in = [] \<or> author_id_raw = []
           then (s, Inr (author_list, Some ''ISBN, Title, and Author are required.''))
           else
            (case parse_optional py_int publication_year_raw of
               Inl e \<Rightarrow> (s, Inl e)
             | Inr year_in \<Rightarrow>
                (case py_int author_id_raw of
                   None \<Rightarrow> (s, Inl ValueError)
                 | Some aid \<Rightarrow>
                     let b = \<lparr>b_id = next_id (map b_id (books s)), isbn = isbn_in,
                               title = title_in, publication_year = year_in,
                               author_id = aid\<rparr>
                     in if integrity_error fk s b
                        then (s, Inr (author_list,
                                Some (''ISBN '' @ quoted isbn_in @
                                  '' already exists. Please use a unique ISBN or edit the existing book.'')))
                        else (s\<lparr>books := books s @ [b]\<rparr>,
                              Inr (author_list,
                                Some (''Book '' @ quoted title_in @ '' added successfully.'')))))
      else (s, Inr (author_list, None)))"

subsection \<open>Deleting a book\<close>

text \<open>
  \<^verbatim>\<open>delete_book(book_id)\<close>: fetch the book or abort with 404; delete it and commit; count
  the books that still carry its author; when none does, fetch the author and, if there is
  one, delete it and commit. The result is the \<^verbatim>\<open>msg\<close> parameter of the redirect to the
  home page.
\<close>

definition delete_book :: "store \<Rightarrow> int \<Rightarrow> store \<times> (error + string)" where
  "delete_book s book_id =
     (case get_book s book_id of
        None \<Rightarrow> (s, Inl NotFound)
      | Some found \<Rightarrow>
          let aid = author_id found;
              s1 = s\<lparr>books := filter (\<lambda>b. b_id b \<noteq> book_id) (books s)\<rparr>;
              remaining = length (filter (\<lambda>b. author_id b = aid) (books s1));
              s2 = (if remaining = 0
                    then (case get_author s1 aid of
                            None \<Rightarrow> s1
                          | Some a \<Rightarrow> s1\<lparr>authors := filter (\<lambda>x. a_id x \<noteq> aid) (authors s1)\<rparr>)
                    else s1)
          in (s2, Inr (''Deleted book '' @ quoted (title found) @ ''.'')))"

subsection \<open>Sequences of requests\<close>

datatype request =
    Home home_args
  | AddAuthor http_method author_form
  | AddBook http_method book_form
  | DeleteBook int

definition step :: "bool \<Rightarrow> store \<Rightarrow> request \<Rightarrow> store" where
  "step fk s r =
     (case r of
        Home args \<Rightarrow> s
      | AddAuthor m form \<Rightarrow> fst (add_author s m form)
      | AddBook m form \<Rightarrow> fst (add_book fk s m form)
      | DeleteBook i \<Rightarrow> fst (delete_book s i))"

definition run :: "bool \<Rightarrow> store \<Rightarrow> request list \<Rightarrow> store" where
  "run fk s rs = foldl (step fk) s rs"

subsection \<open>Case-insensitive substrings\<close>


subsection \<open>Example stores\<close>

definition tolkien :: author where
  "tolkien = \<lparr>a_id = 1, name = ''J.R.R. Tolkien'', birth_date = Some (Date 1892 1 3),
               date_of_death = Some (Date 1973 9 2)\<rparr>"

definition herbert :: author where
  "herbert = \<lparr>a_id = 2, name = ''Herbert'', birth_date = None, date_of_death = None\<rparr>"

definition hobbit :: book where
  "hobbit = \<lparr>b_id = 1, isbn = ''9780261102217'', title = ''The Hobbit'',
              publication_year = Some 1937, author_id = 1\<rparr>"

definition silmarillion :: book where
  "silmarillion = \<lparr>b_id = 2, isbn = ''9780261102736'', title = ''The Silmarillion'',
                    publication_year = Some 1977, author_id = 1\<rparr>"

definition dune :: book where
  "dune = \<lparr>b_id = 3, isbn = ''9780441013593'', title = ''Dune'',
            publication_year = Some 1965, author_id = 2\<rparr>"

definition library :: store where
  "library = \<lparr>authors = [tolkien, herbert], books = [hobbit, silmarillion, dune]\<rparr>"

text \<open>A store in which the one book refers to an author that has no record.\<close>

definition orphaned :: store where
  "orphaned = \<lparr>authors = [tolkien], books = [dune]\<rparr>"


text \<open>The three books of the specification's example of sorting.\<close>

definition adams :: author where
  "adams = \<lparr>a_id = 1, name = ''Adams'', birth_date = None, date_of_death = None\<rparr>"

definition baker :: author where
  "baker = \<lparr>a_id = 2, name = ''Baker'', birth_date = None, date_of_death = None\<rparr>"

definition zoo :: book where
  "zoo = \<lparr>b_id = 1, isbn = ''1'', title = ''Zoo'', publication_year = None, author_id = 1\<rparr>"

definition alpha :: book where
  "alpha = \<lparr>b_id = 2, isbn = ''2'', title = ''Alpha'', publication_year = None, author_id = 1\<rparr>"

definition beta :: book where
  "beta = \<lparr>b_id = 3, isbn = ''3'', title = ''Beta'', publication_year = None, author_id = 2\<rparr>"

definition shelf :: store where
  "shelf = \<lparr>authors = [adams, baker], books = [zoo, alpha, beta]\<rparr>"

text \<open>Forms and a sequence of requests for the examples below.\<close>

definition fellowship_form :: book_form where
  "fellowship_form = \<lparr>f_isbn = Some '' 9780261102354 '', f_title = Some ''The Fellowship of the Ring'',
                       f_publication_year = Some ''1954'', f_author_id = Some ''1''\<rparr>"

definition duplicate_form :: book_form where
  "duplicate_form = \<lparr>f_isbn = Some ''9780261102217'', f_title = Some ''There and Back Again'',
                      f_publication_year = None, f_author_id = Some ''1''\<rparr>"





definition asimov_form :: author_form where
  "asimov_form = \<lparr>f_name = Some '' Isaac Asimov'', f_birth_date = Some ''1920-01-02'',
                   f_date_of_death = None\<rparr>"


definition session :: "request list" where
  "session = [AddBook POST duplicate_form, AddBook POST fellowship_form, DeleteBook 1,
              AddAuthor POST asimov_form, Home \<lparr>arg_sort = None, arg_q = None, arg_msg = None\<rparr>,
              AddBook POST duplicate_form, AddBook POST duplicate_form]"

section \<open>Properties\<close>

subsection \<open>Lookups, identifiers and parsers\<close>



lemma get_author_books_upd [simp]: "get_author (s\<lparr>books := bs\<rparr>) i = get_author s i"
  by (simp add: get_author_def)

lemma get_book_authors_upd [simp]: "get_book (s\<lparr>authors := as\<rparr>) i = get_book s i"
  by (simp add: get_book_def)


lemma strip_Nil [simp]: "strip [] = []"
  by (simp add: strip_def)

lemma py_int_Nil [simp]: "py_int [] = None"
  by (simp add: py_int_def)









subsection \<open>Patterns without wildcards\<close>









subsection \<open>Listing books\<close>

lemma mset_home_query:
  "mset (home_query s q sort_arg)
     = mset (if q \<noteq> [] then filter (matches (''%'' @ q @ ''%'')) (join_author s)
             else join_author s)"
  by (simp add: home_query_def Let_def)

lemma hp_books_home:
  "hp_books (home s args)
     = map fst (home_query s (strip (get_default (arg_q args) ''''))
                  (get_default (arg_sort args) ''title''))"
  by (simp add: home_def Let_def)





text \<open>
  Claim C4. The listing holds the rows the filter selects, each once. When the sort
  parameter is \<^verbatim>\<open>author\<close> the rows are in ascending order of the author's name, and rows
  of one name are in ascending order of title; for every other value, the default
  \<^verbatim>\<open>title\<close> among them, the books are in ascending order of title. Text is ordered
  character by character, by character code.
\<close>

theorem home_order:
  "hp_books (home s args)
     = map fst (home_query s (strip (get_default (arg_q args) ''''))
                  (get_default (arg_sort args) ''title''))
   \<and> mset (home_query s (strip (get_default (arg_q args) ''''))
             (get_default (arg_sort args) ''title''))
       = mset (if strip (get_default (arg_q args) '''') \<noteq> []
               then filter (matches (''%'' @ strip (get_default (arg_q args) '''') @ ''%''))
                      (join_author s)
               else join_author s)
   \<and> (if get_default (arg_sort args) ''title'' = ''author''
      then sorted_wrt
             (\<lambda>r r'. name (snd r) < name (snd r')
                    \<or> (name (snd r) = name (snd r') \<and> title (fst r) \<le> title (fst r')))
             (home_query s (strip (get_default (arg_q args) ''''))
                (get_default (arg_sort args) ''title''))
      else sorted (map title (hp_books (home s args))))"
proof (intro conjI)
  show "hp_books (home s args)
     = map fst (home_query s (strip (get_default (arg_q args) ''''))
                  (get_default (arg_sort args) ''title''))"
    by (rule hp_books_home)
next
  show "mset (home_query s (strip (get_default (arg_q args) ''''))
             (get_default (arg_sort args) ''title''))
       = mset (if strip (get_default (arg_q args) '''') \<noteq> []
               then filter (matches (''%'' @ strip (get_default (arg_q args) '''') @ ''%''))
                      (join_author s)
               else join_author s)"
    by (rule mset_home_query)
next
  let ?q = "strip (get_default (arg_q args) '''')"
  let ?rows = "if ?q \<noteq> [] then filter (matches (''%'' @ ?q @ ''%'')) (join_author s)
               else join_author s"
  show "if get_default (arg_sort args) ''title'' = ''author''
      then sorted_wrt
             (\<lambda>r r'. name (snd r) < name (snd r')
                    \<or> (name (snd r) = name (snd r') \<and> title (fst r) \<le> title (fst r')))
             (home_query s ?q (get_default (arg_sort args) ''title''))
      else sorted (map title (hp_books (home s args)))"
  proof (cases "get_default (arg_sort args) ''title'' = ''author''")
    case True
    then have q: "home_query s ?q (get_default (arg_sort args) ''title'')
                  = sort_key (\<lambda>r. (name (snd r), title (fst r))) ?rows"
      by (simp add: home_query_def Let_def)
    have "sorted (map (\<lambda>r. (name (snd r), title (fst r)))
                    (sort_key (\<lambda>r. (name (snd r), title (fst r))) ?rows))"
      by (rule sorted_sort_key)
    then have "sorted_wrt (\<lambda>r r'. (name (snd r), title (fst r)) \<le> (name (snd r'), title (fst r')))
                 (sort_key (\<lambda>r. (name (snd r), title (fst r))) ?rows)"
      by (simp add: sorted_map)
    then have "sorted_wrt
             (\<lambda>r r'. name (snd r) < name (snd r')
                    \<or> (name (snd r) = name (snd r') \<and> title (fst r) \<le> title (fst r')))
             (sort_key (\<lambda>r. (name (snd r), title (fst r))) ?rows)"
      by (rule sorted_wrt_mono_rel [rotated]) (auto simp: less_eq_prod_def)
    then show ?thesis using True q by simp
  next
    case False
    then have q: "home_query s ?q (get_default (arg_sort args) ''title'')
                  = sort_key (\<lambda>r. title (fst r)) ?rows"
      by (simp add: home_query_def Let_def)
    have "sorted (map (\<lambda>r. title (fst r)) (sort_key (\<lambda>r. title (fst r)) ?rows))"
      by (rule sorted_sort_key)
    then have "sorted (map title (map fst (sort_key (\<lambda>r. title (fst r)) ?rows)))"
      by (simp add: comp_def)
    then show ?thesis using False q by (simp add: hp_books_home)
  qed
qed

text \<open>The specification's example: Zoo and Alpha by Adams, Beta by Baker.\<close>

theorem home_order_witness:
  "hp_books (home shelf \<lparr>arg_sort = Some ''author'', arg_q = None, arg_msg = None\<rparr>)
     = [alpha, zoo, beta]
   \<and> sorted_wrt
       (\<lambda>r r'. name (snd r) < name (snd r')
              \<or> (name (snd r) = name (snd r') \<and> title (fst r) \<le> title (fst r')))
       (home_query shelf [] ''author'')
   \<and> hp_books (home shelf \<lparr>arg_sort = Some ''isbn'', arg_q = None, arg_msg = None\<rparr>)
     = [alpha, beta, zoo]
   \<and> sorted (map title
       (hp_books (home shelf \<lparr>arg_sort = Some ''isbn'', arg_q = None, arg_msg = None\<rparr>)))"
proof -
  let ?a = "\<lparr>arg_sort = Some ''author'', arg_q = None, arg_msg = None\<rparr>"
  let ?t = "\<lparr>arg_sort = Some ''isbn'', arg_q = None, arg_msg = None\<rparr>"
  have e1: "hp_books (home shelf ?a) = [alpha, zoo, beta]" by code_simp
  have e2: "hp_books (home shelf ?t) = [alpha, beta, zoo]" by code_simp
  have o1: "sorted_wrt
       (\<lambda>r r'. name (snd r) < name (snd r')
              \<or> (name (snd r) = name (snd r') \<and> title (fst r) \<le> title (fst r')))
       (home_query shelf [] ''author'')"
    using home_order [of shelf ?a] by (simp add: get_default_def)
  have "if get_default (arg_sort ?t) ''title'' = ''author''
        then sorted_wrt
             (\<lambda>r r'. name (snd r) < name (snd r')
                    \<or> (name (snd r) = name (snd r') \<and> title (fst r) \<le> title (fst r')))
             (home_query shelf (strip (get_default (arg_q ?t) [])) (get_default (arg_sort ?t) ''title''))
        else sorted (map title (hp_books (home shelf ?t)))"
    using home_order [of shelf ?t] by blast
  then have o2: "sorted (map title (hp_books (home shelf ?t)))"
    by (simp add: get_default_def)
  show ?thesis using e1 e2 o1 o2 by blast
qed




subsection \<open>Adding an author\<close>







subsection \<open>Adding a book\<close>








subsection \<open>Deleting a book\<close>



text \<open>
  Claim C10. When the deleted book was the last one of its author and the store holds no
  record of that author, \<^const>\<open>delete_book\<close> does not fail: it skips the deletion of the
  author, leaves the author table alone and returns the redirect with the title of the
  deleted book.
\<close>

theorem delete_book_author_absent:
  assumes "get_book s i = Some b"
    and "filter (\<lambda>x. author_id x = author_id b) (filter (\<lambda>x. b_id x \<noteq> i) (books s)) = []"
    and "get_author s (author_id b) = None"
  shows "delete_book s i =
           (s\<lparr>books := filter (\<lambda>x. b_id x \<noteq> i) (books s)\<rparr>,
            Inr (''Deleted book '' @ quoted (title b) @ ''.''))"
  using assms by (simp add: delete_book_def Let_def)

theorem delete_book_author_absent_witness:
  "get_book orphaned 3 = Some dune
   \<and> get_author orphaned (author_id dune) = None
   \<and> delete_book orphaned 3
       = (\<lparr>authors = [tolkien], books = []\<rparr>, Inr ''Deleted book 'Dune'.'')"
proof -
  have h: "get_book orphaned 3 = Some dune" by code_simp
  have r: "filter (\<lambda>x. author_id x = author_id dune)
             (filter (\<lambda>x. b_id x \<noteq> 3) (books orphaned)) = []" by code_simp
  have a: "get_author orphaned (author_id dune) = None" by code_simp
  have e: "(orphaned\<lparr>books := filter (\<lambda>x. b_id x \<noteq> 3) (books orphaned)\<rparr>,
            Inr (''Deleted book '' @ quoted (title dune) @ ''.'') :: error + string)
           = (\<lparr>authors = [tolkien], books = []\<rparr>, Inr ''Deleted book 'Dune'.'')"
    by code_simp
  show ?thesis using delete_book_author_absent [OF h r a] h a e by simp
qed

subsection \<open>ISBN uniqueness over sequences of requests\<close>

lemma add_author_books: "books (fst (add_author s m form)) = books s"
  by (simp add: add_author_def Let_def split: sum.splits)

lemma add_book_books:
  "books (fst (add_book fk s m form)) = books s
   \<or> (\<exists>b. books (fst (add_book fk s m form)) = books s @ [b] \<and> \<not> integrity_error fk s b)"
  by (auto simp: add_book_def Let_def split: sum.splits option.splits)

lemma delete_book_books: "\<exists>P. books (fst (delete_book s i)) = filter P (books s)"
proof (cases "get_book s i")
  case None
  then have "books (fst (delete_book s i)) = filter (\<lambda>_. True) (books s)"
    by (simp add: delete_book_def)
  then show ?thesis by blast
next
  case (Some b)
  then have "books (fst (delete_book s i)) = filter (\<lambda>x. b_id x \<noteq> i) (books s)"
    by (simp add: delete_book_def Let_def split: option.splits)
  then show ?thesis by blast
qed

lemma step_isbn_distinct:
  assumes "distinct (map isbn (books s))"
  shows "distinct (map isbn (books (step fk s r)))"
proof (cases r)
  case (Home args)
  then show ?thesis using assms by (simp add: step_def)
next
  case (AddAuthor m form)
  then show ?thesis using assms by (simp add: step_def add_author_books)
next
  case (AddBook m form)
  then show ?thesis
    using assms add_book_books [of fk s m form]
    by (auto simp: step_def integrity_error_def)
next
  case (DeleteBook i)
  then show ?thesis
    using assms delete_book_books [of s i]
    by (auto simp: step_def distinct_map_filter)
qed

text \<open>
  Claim C8. From a store in which no two books share an ISBN, every sequence of requests
  to the four handlers leads to a store in which no two books share an ISBN, whether or not
  the storage engine checks foreign keys.
\<close>

theorem run_isbn_unique:
  "distinct (map isbn (books s)) \<Longrightarrow> distinct (map isbn (books (run fk s rs)))"
  unfolding run_def
  by (induction rs arbitrary: s) (simp_all add: step_isbn_distinct)

text \<open>
  In \<^const>\<open>session\<close> a duplicate of the ISBN of The Hobbit is refused, accepted once The
  Hobbit has been deleted, and refused again after that.
\<close>

theorem run_isbn_unique_witness:
  "distinct (map isbn (books library))
   \<and> map isbn (books (run False library session))
       = [''9780261102736'', ''9780441013593'', ''9780261102354'', ''9780261102217'']
   \<and> distinct (map isbn (books (run False library session)))"
proof -
  have h: "distinct (map isbn (books library))" by code_simp
  have e: "map isbn (books (run False library session))
       = [''9780261102736'', ''9780441013593'', ''9780261102354'', ''9780261102217'']"
    by code_simp
  show ?thesis using run_isbn_unique [OF h, of False session] h e by simp
qed

end
